theory Spec2Isabelle
  imports Complex_Main "HOL-Library.AList"
begin

section \<open>JavaScript numbers and strings\<close>

text \<open>
  The rotation index of \<^verbatim>\<open>ProxyManager\<close> is a JavaScript number. It only ever holds an
  integer or, after a remainder by zero, \<^verbatim>\<open>NaN\<close>; both are kept apart here. The counters
  of the program are only incremented from zero and are modelled as unbounded integers
  (a double is exact on integers below \<open>2 ^ 53\<close>).
\<close>

datatype jsnum = Num int | NaN

text \<open>\<^verbatim>\<open>a + 1\<close> on a number: \<^verbatim>\<open>NaN + 1\<close> is \<^verbatim>\<open>NaN\<close>.\<close>

fun js_inc :: "jsnum \<Rightarrow> jsnum" where
  "js_inc (Num i) = Num (i + 1)"
| "js_inc NaN = NaN"

text \<open>
  \<^verbatim>\<open>a % n\<close> for an array length \<open>n\<close>: the remainder by zero is \<^verbatim>\<open>NaN\<close>, and the
  remainder takes the sign of the dividend (truncated division), unlike \<open>mod\<close> of HOL.
\<close>

fun js_rem :: "jsnum \<Rightarrow> nat \<Rightarrow> jsnum" where
  "js_rem NaN n = NaN"
| "js_rem (Num a) n = (if n = 0 then NaN else Num (sgn a * (\<bar>a\<bar> mod int n)))"

text \<open>\<^verbatim>\<open>a >= n\<close>: every comparison with \<^verbatim>\<open>NaN\<close> is false.\<close>

fun js_ge :: "jsnum \<Rightarrow> nat \<Rightarrow> bool" where
  "js_ge NaN n = False"
| "js_ge (Num a) n = (int n \<le> a)"

text \<open>\<^verbatim>\<open>s.startsWith(p)\<close> and \<^verbatim>\<open>s.includes(t)\<close> on strings.\<close>

definition startsWith :: "string \<Rightarrow> string \<Rightarrow> bool" where
  "startsWith s p = (take (length p) s = p)"

fun includes_str :: "string \<Rightarrow> string \<Rightarrow> bool" where
  "includes_str [] t = (t = [])"
| "includes_str (c # cs) t = (startsWith (c # cs) t \<or> includes_str cs t)"

section \<open>The rotation controller (\<^verbatim>\<open>ProxyManager\<close>)\<close>

record endpoint =
  ep_host :: string
  ep_port :: int
  ep_type :: string

text \<open>
  The fields of \<^verbatim>\<open>ProxyManager\<close> that rotation reads and writes. \<^verbatim>\<open>rotationMode\<close> is the
  string the message handler stores, whatever it is.
\<close>

record rotation_state =
  proxyEndpoints :: "endpoint list"
  currentProxyIndex :: jsnum
  isEnabled :: bool
  rotationMode :: string
  requestCount :: int
  rotateEveryNRequests :: int
  totalRequests :: int
  rotations :: int

text \<open>The state the constructor builds.\<close>

definition ProxyManager_new :: rotation_state where
  "ProxyManager_new =
     \<lparr>proxyEndpoints = [], currentProxyIndex = Num 0, isEnabled = False,
      rotationMode = ''sequential'', requestCount = 0, rotateEveryNRequests = 1,
      totalRequests = 0, rotations = 0\<rparr>"

text \<open>
  \<^verbatim>\<open>rotateProxy()\<close>. The argument \<open>r\<close> is what \<^verbatim>\<open>Math.random()\<close> returns when it is
  called, a number with \<open>0 \<le> r < 1\<close>; the product and \<^verbatim>\<open>Math.floor\<close> are taken over
  the reals. \<^verbatim>\<open>updateProxy()\<close> and the notification message that follow the
  assignment are asynchronous calls into the host; they do not write the fields above.
\<close>

definition rotateProxy :: "real \<Rightarrow> rotation_state \<Rightarrow> rotation_state" where
  "rotateProxy r s =
     (let n = length (proxyEndpoints s);
          i = (if rotationMode s = ''sequential''
                 then js_rem (js_inc (currentProxyIndex s)) n
               else if rotationMode s = ''random''
                 then Num \<lfloor>r * real n\<rfloor>
               else currentProxyIndex s)
      in s\<lparr>currentProxyIndex := i, rotations := rotations s + 1\<rparr>)"



text \<open>\<^verbatim>\<open>updateProxyEndpoints(endpoints)\<close>.\<close>

definition updateProxyEndpoints :: "endpoint list \<Rightarrow> rotation_state \<Rightarrow> rotation_state" where
  "updateProxyEndpoints endpoints s =
     (let s1 = s\<lparr>proxyEndpoints := endpoints\<rparr>
      in if js_ge (currentProxyIndex s1) (length endpoints)
         then s1\<lparr>currentProxyIndex := Num 0\<rparr>
         else s1)"

text \<open>
  The invariant of the data model: with a non-empty target list the index is a number
  below its length (and not negative).
\<close>

definition index_in_range :: "rotation_state \<Rightarrow> bool" where
  "index_in_range s =
     (case proxyEndpoints s of
        [] \<Rightarrow> True
      | _ # _ \<Rightarrow> (case currentProxyIndex s of
                    NaN \<Rightarrow> False
                  | Num i \<Rightarrow> 0 \<le> i \<and> i < int (length (proxyEndpoints s))))"

section \<open>The host's URL parser\<close>

text \<open>
  \<^verbatim>\<open>new URL(s)\<close> is the host's parser, not code of this program. It is a parameter of
  the model: a function that gives the parsed URL, or \<open>None\<close> where the constructor
  throws \<^verbatim>\<open>TypeError\<close>. Of a parsed URL the program reads \<^verbatim>\<open>protocol\<close> (the scheme with
  its colon), \<^verbatim>\<open>hostname\<close>, \<^verbatim>\<open>origin\<close> (the serialised origin) and \<^verbatim>\<open>pathname\<close>.
\<close>

record url =
  url_protocol :: string
  url_hostname :: string
  url_origin :: string
  url_pathname :: string

type_synonym url_parser = "string \<Rightarrow> url option"

section \<open>Auto-rotation eligibility (\<^verbatim>\<open>ProxyManager.shouldAutoRotate\<close>)\<close>

record autorotate_state =
  autoRotateMode :: bool
  autoRotateWhitelist :: "string list"
  autoRotateBlacklist :: "string list"

text \<open>The lists the constructor builds.\<close>

definition autorotate_new :: autorotate_state where
  "autorotate_new =
     \<lparr>autoRotateMode = False, autoRotateWhitelist = [],
      autoRotateBlacklist = [''localhost'', ''127.0.0.1'', ''chrome://'', ''chrome-extension://'']\<rparr>"

text \<open>The loop over the blacklist: it returns at the first entry the domain or the URL contains.\<close>

fun blacklist_hit :: "string \<Rightarrow> string \<Rightarrow> string list \<Rightarrow> bool" where
  "blacklist_hit domain u [] = False"
| "blacklist_hit domain u (blacklisted # bs) =
     (if includes_str domain blacklisted \<or> includes_str u blacklisted then True
      else blacklist_hit domain u bs)"

text \<open>The loop over the whitelist.\<close>

fun whitelist_hit :: "string \<Rightarrow> string list \<Rightarrow> bool" where
  "whitelist_hit domain [] = False"
| "whitelist_hit domain (whitelisted # ws) =
     (if includes_str domain whitelisted then True else whitelist_hit domain ws)"

text \<open>
  \<^verbatim>\<open>shouldAutoRotate(url)\<close>. The whole body stands in a \<^verbatim>\<open>try\<close> whose handler returns
  \<^verbatim>\<open>false\<close>; the only call that throws on a string is the URL constructor.
\<close>

definition shouldAutoRotate :: "url_parser \<Rightarrow> autorotate_state \<Rightarrow> string \<Rightarrow> bool" where
  "shouldAutoRotate new_URL st u =
     (case new_URL u of
        None \<Rightarrow> False
      | Some parsedUrl \<Rightarrow>
          if \<not> startsWith (url_protocol parsedUrl) ''http'' then False
          else if blacklist_hit (url_hostname parsedUrl) u (autoRotateBlacklist st) then False
          else if autoRotateWhitelist st = [] then True
          else if whitelist_hit (url_hostname parsedUrl) (autoRotateWhitelist st) then True
          else False)"

section \<open>JavaScript values and objects\<close>

text \<open>
  The values the gateway code passes around: response bodies, header objects, per-call
  options. An object is the list of its own properties in insertion order, each name
  once. Numbers are kept to the integers; the code modelled here does not compute with
  them.
\<close>

datatype jsval = Undefined | Null | Bool bool | Number int | Str string
  | Obj "(string \<times> jsval) list"

type_synonym jsobject = "(string \<times> jsval) list"

text \<open>The truth value a condition such as \<^verbatim>\<open>if (cached)\<close> sees.\<close>

fun truthy :: "jsval \<Rightarrow> bool" where
  "truthy Undefined = False"
| "truthy Null = False"
| "truthy (Bool b) = b"
| "truthy (Number n) = (n \<noteq> 0)"
| "truthy (Str s) = (s \<noteq> [])"
| "truthy (Obj ps) = True"

text \<open>\<^verbatim>\<open>v || d\<close> on an optional number: a missing value and zero give the default.\<close>

definition or_default :: "int option \<Rightarrow> int \<Rightarrow> int" where
  "or_default v d = (case v of None \<Rightarrow> d | Some n \<Rightarrow> if n = 0 then d else n)"

section \<open>The response cache (\<^verbatim>\<open>CacheManager\<close>)\<close>

text \<open>
  The cache is a JavaScript \<^verbatim>\<open>Map\<close>: it iterates in insertion order, \<^verbatim>\<open>set\<close> on a key
  that is present replaces the value where the key stands, and \<^verbatim>\<open>set\<close> on a new key
  appends. It is modelled by an association list with \<^verbatim>\<open>Map.get\<close> as \<open>map_of\<close>,
  \<^verbatim>\<open>Map.set\<close> as \<open>AList.update\<close>, \<^verbatim>\<open>Map.delete\<close> as \<open>AList.delete\<close> and
  \<^verbatim>\<open>Map.size\<close> as \<open>length\<close>; the keys of a \<^verbatim>\<open>Map\<close> are distinct. Keys are compared as
  values, which is how a \<^verbatim>\<open>Map\<close> compares strings and the other primitive values (the
  gateway's keys are strings, the method and the URL joined by a colon).
\<close>

record 'v cache_entry =
  ce_data :: 'v
  ce_timestamp :: int

record cache_config =
  cc_ttl :: "int option"
  cc_maxSize :: "int option"

record ('k, 'v) CacheManager =
  ttl :: int
  maxSize :: int
  cache :: "('k \<times> 'v cache_entry) list"

definition CacheManager_new :: "cache_config \<Rightarrow> ('k, 'v) CacheManager" where
  "CacheManager_new cfg =
     \<lparr>ttl = or_default (cc_ttl cfg) 300000, maxSize = or_default (cc_maxSize cfg) 100,
      cache = []\<rparr>"

text \<open>\<^verbatim>\<open>get(key)\<close>, with \<open>now\<close> what \<^verbatim>\<open>Date.now()\<close> returns; \<open>None\<close> is \<^verbatim>\<open>null\<close>.\<close>

definition cache_get ::
    "('k, 'v) CacheManager \<Rightarrow> 'k \<Rightarrow> int \<Rightarrow> 'v option \<times> ('k, 'v) CacheManager" where
  "cache_get c key now =
     (case map_of (cache c) key of
        None \<Rightarrow> (None, c)
      | Some entry \<Rightarrow>
          if ttl c < now - ce_timestamp entry
          then (None, c\<lparr>cache := AList.delete key (cache c)\<rparr>)
          else (Some (ce_data entry), c))"

text \<open>
  \<^verbatim>\<open>set(key, data)\<close>. On an empty \<^verbatim>\<open>Map\<close> the first key is \<^verbatim>\<open>undefined\<close> and deleting it
  does nothing.
\<close>

definition cache_set ::
    "('k, 'v) CacheManager \<Rightarrow> 'k \<Rightarrow> 'v \<Rightarrow> int \<Rightarrow> ('k, 'v) CacheManager" where
  "cache_set c key d now =
     (let kept = (if maxSize c \<le> int (length (cache c))
                  then (case cache c of
                          [] \<Rightarrow> []
                        | (firstKey, _) # _ \<Rightarrow> AList.delete firstKey (cache c))
                  else cache c)
      in c\<lparr>cache := AList.update key \<lparr>ce_data = d, ce_timestamp = now\<rparr> kept\<rparr>)"

section \<open>Objects, spreads and the host's functions\<close>

text \<open>Reading a property: a missing one is \<^verbatim>\<open>undefined\<close>.\<close>

definition prop_of :: "jsobject \<Rightarrow> string \<Rightarrow> jsval" where
  "prop_of obj k = (case map_of obj k of None \<Rightarrow> Undefined | Some v \<Rightarrow> v)"

text \<open>The decimal name of an index, for the own properties of a string.\<close>

fun decimal :: "nat \<Rightarrow> string" where
  "decimal n =
     (if n < 10 then [char_of (48 + n)]
      else decimal (n div 10) @ [char_of (48 + n mod 10)])"

declare decimal.simps [simp del]

text \<open>
  The own enumerable properties a spread \<^verbatim>\<open>...v\<close> or \<^verbatim>\<open>Object.keys(v)\<close> sees: those of an
  object, the indexed characters of a string, none of any other value.
\<close>

fun own_props :: "jsval \<Rightarrow> jsobject" where
  "own_props (Obj ps) = ps"
| "own_props (Str s) = map (\<lambda>i. (decimal i, Str [s ! i])) [0..<length s]"
| "own_props v = []"

text \<open>
  \<^verbatim>\<open>{...target, ...src}\<close>: the properties of \<open>src\<close> are assigned in order, a later
  assignment to a name replacing the earlier value.
\<close>

definition spread :: "jsobject \<Rightarrow> jsobject \<Rightarrow> jsobject" where
  "spread target src = fold (\<lambda>(k, v). AList.update k v) src target"

text \<open>
  What the code calls of the host, as parameters of the model: the URL parser;
  \<open>h_URL_href h s qs\<close>, the text of \<^verbatim>\<open>new URL(s)\<close> after \<^verbatim>\<open>searchParams.append\<close> of each pair
  of \<open>qs\<close> (\<open>None\<close> where the constructor throws); \<^verbatim>\<open>JSON.stringify\<close>; \<^verbatim>\<open>btoa\<close>; and the
  extension's URL and id as \<^verbatim>\<open>chrome.runtime\<close> reports them.
\<close>

record host =
  h_new_URL :: url_parser
  h_URL_href :: "string \<Rightarrow> jsobject \<Rightarrow> string option"
  h_JSON_stringify :: "jsval \<Rightarrow> jsval"
  h_btoa :: "string \<Rightarrow> string"
  h_extension_url :: string
  h_extension_id :: string

text \<open>The values the code throws: a \<^verbatim>\<open>TypeError\<close> of the host, or an \<^verbatim>\<open>Error\<close> with its message.\<close>

datatype exn = TypeError | Error string

section \<open>The gateway client (\<^verbatim>\<open>APIGateway\<close>)\<close>

text \<open>
  Interceptors are closures; the model keeps which closure stands where. The two the
  controller registers are named, any other is numbered.
\<close>

datatype interceptor = ProxyStamp | ResponseCount | Custom nat

record interceptors =
  ic_request :: "interceptor list"
  ic_response :: "interceptor list"

text \<open>
  The object that holds the two interceptor arrays is shared by reference: the
  constructor stores the object of the configuration it is given, and
  \<^verbatim>\<open>addRequestInterceptor\<close> pushes onto the array of that object. Such objects live in a
  store, a list indexed by address, and a configuration holds the address. An address
  that a configuration holds is an address of the store; reading anywhere else gives
  the empty lists.
\<close>

type_synonym addr = nat

definition interceptors_at :: "interceptors list \<Rightarrow> addr \<Rightarrow> interceptors" where
  "interceptors_at store a =
     (if a < length store then store ! a else \<lparr>ic_request = [], ic_response = []\<rparr>)"

text \<open>
  A property of a configuration object is missing, or present with a value that counts as
  false (\<^verbatim>\<open>false\<close>, \<^verbatim>\<open>null\<close>, \<^verbatim>\<open>undefined\<close>), or present with a value. A spread copies every
  property that is present, whatever its value; \<^verbatim>\<open>p || d\<close> is the default \<open>d\<close> unless a
  value is given that counts as true, which the number zero does not.
\<close>

datatype 'a optional = Missing | Falsy | Given 'a

definition given_or :: "'a optional \<Rightarrow> 'a \<Rightarrow> 'a" where
  "given_or p d = (case p of Given x \<Rightarrow> x | _ \<Rightarrow> d)"

definition number_or :: "int optional \<Rightarrow> int \<Rightarrow> int" where
  "number_or p d = (case p of Given n \<Rightarrow> if n = 0 then d else n | _ \<Rightarrow> d)"

definition given_value :: "'a optional \<Rightarrow> 'a option" where
  "given_value p = (case p of Given x \<Rightarrow> Some x | _ \<Rightarrow> None)"

record rate_config =
  rl_maxRequests :: "int option"
  rl_windowMs :: "int option"

record auth_config =
  auth_type :: string
  auth_token :: string
  auth_key :: string
  auth_value :: string
  auth_location :: string
  auth_username :: string
  auth_password :: string
  auth_accessToken :: string

text \<open>
  The configuration a caller passes. Its \<^verbatim>\<open>interceptors\<close> property, when given, is the
  address of an object of the store.
\<close>

record gateway_options =
  go_timeout :: "int optional"
  go_retries :: "int optional"
  go_headers :: "jsobject optional"
  go_rateLimit :: "rate_config optional"
  go_caching :: "cache_config optional"
  go_authentication :: "auth_config optional"
  go_transformers :: "jsobject optional"
  go_interceptors :: "addr optional"

definition no_options :: gateway_options where
  "no_options =
     \<lparr>go_timeout = Missing, go_retries = Missing, go_headers = Missing,
      go_rateLimit = Missing, go_caching = Missing, go_authentication = Missing,
      go_transformers = Missing, go_interceptors = Missing\<rparr>"

text \<open>The configuration the client stores.\<close>

record gateway_config =
  gc_timeout :: int
  gc_retries :: int
  gc_headers :: jsobject
  gc_rateLimit :: "rate_config option"
  gc_caching :: "cache_config option"
  gc_authentication :: "auth_config option"
  gc_transformers :: jsobject
  gc_interceptors :: addr

record metrics =
  mt_requests :: int
  mt_errors :: int
  mt_latency :: "real list"
  mt_lastRequest :: "int option"

text \<open>
  The client object. Of the rate limiter only its presence is kept (its queue belongs to
  the scheduling of concurrent calls); the endpoint table and the middleware list are
  bookkeeping that no operation below reads.
\<close>

record gateway =
  baseUrl :: string
  config :: gateway_config
  gw_metrics :: metrics
  gw_rateLimiter :: bool
  gw_cache :: "(jsval, jsval) CacheManager option"

text \<open>\<^verbatim>\<open>s.replace(/\/$/, '')\<close>.\<close>

definition strip_trailing_slash :: "string \<Rightarrow> string" where
  "strip_trailing_slash s = (if s \<noteq> [] \<and> last s = CHR ''/'' then butlast s else s)"

definition normalizeUrl :: "host \<Rightarrow> string \<Rightarrow> string" where
  "normalizeUrl h u =
     (case h_new_URL h u of
        Some parsed \<Rightarrow> url_origin parsed @ strip_trailing_slash (url_pathname parsed)
      | None \<Rightarrow> if startsWith u ''/'' then u else ''/'' @ u)"

definition normalizePath :: "string \<Rightarrow> string" where
  "normalizePath path =
     (let p = (if \<not> startsWith path ''/'' then ''/'' @ path else path);
          q = strip_trailing_slash p
      in if q = [] then ''/'' else q)"

text \<open>
  The constructor, in a store of interceptor objects: it returns the client and the
  store, which has one more object when the configuration gives none.
\<close>

definition APIGateway_new ::
    "host \<Rightarrow> interceptors list \<Rightarrow> string \<Rightarrow> gateway_options
       \<Rightarrow> gateway \<times> interceptors list" where
  "APIGateway_new h store u cfg =
     (\<lparr>baseUrl = normalizeUrl h u,
       config =
         \<lparr>gc_timeout = number_or (go_timeout cfg) 30000,
          gc_retries = number_or (go_retries cfg) 3,
          gc_headers = given_or (go_headers cfg) [],
          gc_rateLimit = given_value (go_rateLimit cfg),
          gc_caching = given_value (go_caching cfg),
          gc_authentication = given_value (go_authentication cfg),
          gc_transformers = given_or (go_transformers cfg) [],
          gc_interceptors = given_or (go_interceptors cfg) (length store)\<rparr>,
       gw_metrics = \<lparr>mt_requests = 0, mt_errors = 0, mt_latency = [], mt_lastRequest = None\<rparr>,
       gw_rateLimiter = (given_value (go_rateLimit cfg) \<noteq> None),
       gw_cache = map_option CacheManager_new (given_value (go_caching cfg))\<rparr>,
      case go_interceptors cfg of
        Given a \<Rightarrow> store
      | _ \<Rightarrow> store @ [\<lparr>ic_request = [], ic_response = []\<rparr>])"

text \<open>\<^verbatim>\<open>applyAuthentication(headers)\<close>, which assigns into the header object it is given.\<close>

definition applyAuthentication :: "host \<Rightarrow> auth_config \<Rightarrow> jsobject \<Rightarrow> jsobject" where
  "applyAuthentication h auth headers =
     (if auth_type auth = ''bearer'' then
        AList.update ''Authorization'' (Str (''Bearer '' @ auth_token auth)) headers
      else if auth_type auth = ''apiKey'' then
        (if auth_location auth = ''header''
         then AList.update (if auth_key auth = [] then ''X-API-Key'' else auth_key auth)
                (Str (auth_value auth)) headers
         else headers)
      else if auth_type auth = ''basic'' then
        AList.update ''Authorization''
          (Str (''Basic '' @ h_btoa h (auth_username auth @ '':'' @ auth_password auth))) headers
      else if auth_type auth = ''oauth2'' then
        AList.update ''Authorization'' (Str (''Bearer '' @ auth_accessToken auth)) headers
      else headers)"

text \<open>
  \<^verbatim>\<open>buildRequest(method, path, data, options)\<close>. The request is an object literal whose
  last element is the spread of \<open>options\<close>.
\<close>

definition buildRequest ::
    "host \<Rightarrow> gateway \<Rightarrow> string \<Rightarrow> string \<Rightarrow> jsval \<Rightarrow> jsobject \<Rightarrow> exn + jsobject" where
  "buildRequest h gw meth path data options =
     (case h_URL_href h (baseUrl gw @ normalizePath path)
             (if meth = ''GET'' \<and> truthy data then own_props data else []) of
        None \<Rightarrow> Inl TypeError
      | Some href \<Rightarrow>
          let merged =
                spread (spread (spread [] (gc_headers (config gw)))
                          (own_props (prop_of options ''headers'')))
                  [(''Content-Type'', Str ''application/json'')];
              headers =
                (case gc_authentication (config gw) of
                   None \<Rightarrow> merged
                 | Some auth \<Rightarrow> applyAuthentication h auth merged)
          in Inr (spread
                   [(''url'', Str href),
                    (''method'', Str meth),
                    (''headers'', Obj headers),
                    (''body'', if meth \<noteq> ''GET'' then h_JSON_stringify h data else Undefined),
                    (''cacheKey'', Str (meth @ '':'' @ href))]
                   options))"

section \<open>Dispatch with retry (the closure \<^verbatim>\<open>createHandler\<close> returns)\<close>

text \<open>What \<^verbatim>\<open>executeRequest\<close> returns on success.\<close>

record response =
  rs_ok :: bool
  rs_status :: int
  rs_data :: jsval
  rs_latency :: real
  rs_timestamp :: int



text \<open>What a call does on the network and the clock, in order.\<close>

datatype event = Attempt nat | Delay int










text \<open>The attempts and the waits of a run of events, each in order.\<close>

fun attempts_of :: "event list \<Rightarrow> nat list" where
  "attempts_of [] = []"
| "attempts_of (Attempt a # es) = a # attempts_of es"
| "attempts_of (Delay d # es) = attempts_of es"

fun delays_of :: "event list \<Rightarrow> int list" where
  "delays_of [] = []"
| "delays_of (Attempt a # es) = delays_of es"
| "delays_of (Delay d # es) = d # delays_of es"


section \<open>The gateway registry (\<^verbatim>\<open>APIGatewayFactory\<close>) and the controller's gateways\<close>

text \<open>
  Client objects live in a store, a list indexed by address: \<^verbatim>\<open>new APIGateway(...)\<close>
  appends the object, and its address is the length the store had. A variable or a \<^verbatim>\<open>Map\<close>
  entry that holds a client holds its address, so two of them hold the identical instance
  exactly when the addresses are equal. The state has the store of clients, the store of
  interceptor objects, the two maps of the registry (\<^verbatim>\<open>gatewayFactory.gateways\<close> and
  \<^verbatim>\<open>gatewayFactory.templates\<close>) and the controller's own map \<^verbatim>\<open>activeGateways\<close>.
\<close>

record world =
  heap :: "gateway list"
  interceptor_store :: "interceptors list"
  gateways :: "(string \<times> addr) list"
  templates :: "(string \<times> gateway_options) list"
  activeGateways :: "(string \<times> addr) list"

text \<open>
  \<^verbatim>\<open>{...a, ...b}\<close> on two configuration objects: a property that \<open>b\<close> has, whatever its
  value, replaces that of \<open>a\<close>.
\<close>

definition or_else :: "'a optional \<Rightarrow> 'a optional \<Rightarrow> 'a optional" where
  "or_else b a = (case b of Missing \<Rightarrow> a | _ \<Rightarrow> b)"

definition merge_options :: "gateway_options \<Rightarrow> gateway_options \<Rightarrow> gateway_options" where
  "merge_options a b =
     \<lparr>go_timeout = or_else (go_timeout b) (go_timeout a),
      go_retries = or_else (go_retries b) (go_retries a),
      go_headers = or_else (go_headers b) (go_headers a),
      go_rateLimit = or_else (go_rateLimit b) (go_rateLimit a),
      go_caching = or_else (go_caching b) (go_caching a),
      go_authentication = or_else (go_authentication b) (go_authentication a),
      go_transformers = or_else (go_transformers b) (go_transformers a),
      go_interceptors = or_else (go_interceptors b) (go_interceptors a)\<rparr>"

text \<open>The state after both constructors: no client, the three built-in templates.\<close>

definition world_new :: world where
  "world_new =
     \<lparr>heap = [],
      interceptor_store = [],
      gateways = [],
      templates =
        [(''rest'',
          no_options\<lparr>go_headers := Given [(''Accept'', Str ''application/json'')],
                     go_caching := Given \<lparr>cc_ttl = Some 300000, cc_maxSize = Some 50\<rparr>,
                     go_retries := Given 3, go_timeout := Given 30000\<rparr>),
         (''graphql'',
          no_options\<lparr>go_headers := Given [(''Content-Type'', Str ''application/json'')],
                     go_retries := Given 2, go_timeout := Given 60000\<rparr>),
         (''websocket'', no_options\<lparr>go_retries := Given 5, go_timeout := Given 10000\<rparr>)],
      activeGateways = []\<rparr>"

text \<open>\<^verbatim>\<open>APIGatewayFactory.create(url, config)\<close>: the client's address and the new state.\<close>

definition create :: "host \<Rightarrow> world \<Rightarrow> string \<Rightarrow> gateway_options \<Rightarrow> exn + (addr \<times> world)" where
  "create h w u cfg =
     (case h_new_URL h u of
        None \<Rightarrow> Inl TypeError
      | Some parsed \<Rightarrow>
          let normalizedUrl = url_origin parsed
          in (case map_of (gateways w) normalizedUrl of
                Some g \<Rightarrow> Inr (g, w)
              | None \<Rightarrow>
                  let g = length (heap w);
                      built = APIGateway_new h (interceptor_store w) normalizedUrl cfg
                  in Inr (g, w\<lparr>heap := heap w @ [fst built],
                                interceptor_store := snd built,
                                gateways := AList.update normalizedUrl g (gateways w)\<rparr>)))"

text \<open>\<^verbatim>\<open>createFromTemplate(url, templateName, overrides)\<close>.\<close>

definition createFromTemplate ::
    "host \<Rightarrow> world \<Rightarrow> string \<Rightarrow> string \<Rightarrow> gateway_options \<Rightarrow> exn + (addr \<times> world)" where
  "createFromTemplate h w u templateName overrides =
     (case map_of (templates w) templateName of
        None \<Rightarrow> Inl (Error (''Template '' @ [CHR 0x27] @ templateName @ [CHR 0x27] @ '' not found''))
      | Some template \<Rightarrow> create h w u (merge_options template overrides))"

text \<open>\<^verbatim>\<open>registerTemplate\<close>, \<^verbatim>\<open>clearAll\<close> and \<^verbatim>\<open>remove\<close> of the registry.\<close>

definition registerTemplate :: "world \<Rightarrow> string \<Rightarrow> gateway_options \<Rightarrow> world" where
  "registerTemplate w name cfg = w\<lparr>templates := AList.update name cfg (templates w)\<rparr>"

definition clearAll :: "world \<Rightarrow> world" where
  "clearAll w = w\<lparr>gateways := []\<rparr>"

definition remove :: "host \<Rightarrow> world \<Rightarrow> string \<Rightarrow> exn + (bool \<times> world)" where
  "remove h w u =
     (case h_new_URL h u of
        None \<Rightarrow> Inl TypeError
      | Some parsed \<Rightarrow>
          Inr (map_of (gateways w) (url_origin parsed) \<noteq> None,
               w\<lparr>gateways := AList.delete (url_origin parsed) (gateways w)\<rparr>))"

text \<open>
  \<^verbatim>\<open>addRequestInterceptor\<close> and \<^verbatim>\<open>addResponseInterceptor\<close> of a client: a push onto an
  array of the interceptor object its configuration holds, seen by every client that
  holds the same object.
\<close>

definition addRequestInterceptor ::
    "interceptor \<Rightarrow> gateway \<Rightarrow> interceptors list \<Rightarrow> interceptors list" where
  "addRequestInterceptor i gw store =
     (let a = gc_interceptors (config gw)
      in if a < length store
         then store[a := (store ! a)\<lparr>ic_request := ic_request (store ! a) @ [i]\<rparr>]
         else store)"

definition addResponseInterceptor ::
    "interceptor \<Rightarrow> gateway \<Rightarrow> interceptors list \<Rightarrow> interceptors list" where
  "addResponseInterceptor i gw store =
     (let a = gc_interceptors (config gw)
      in if a < length store
         then store[a := (store ! a)\<lparr>ic_response := ic_response (store ! a) @ [i]\<rparr>]
         else store)"

text \<open>One of these two method calls on the client at an address.\<close>

definition on_client ::
    "addr \<Rightarrow> (gateway \<Rightarrow> interceptors list \<Rightarrow> interceptors list) \<Rightarrow> world \<Rightarrow> world" where
  "on_client g f w =
     (if g < length (heap w)
      then w\<lparr>interceptor_store := f (heap w ! g) (interceptor_store w)\<rparr>
      else w)"

text \<open>The interceptors a client runs, read through its configuration.\<close>

definition client_interceptors :: "world \<Rightarrow> addr \<Rightarrow> interceptors" where
  "client_interceptors w g =
     interceptors_at (interceptor_store w) (gc_interceptors (config (heap w ! g)))"

text \<open>
  What \<^verbatim>\<open>ProxyManager.createAPIGatewayForURL(url, config)\<close> returns: success with the
  client and a message, or failure with what was caught.
\<close>

datatype gateway_result = Success addr string | Failure exn

text \<open>The configuration the controller passes on, built from the caller's.\<close>

definition gatewayConfig :: "host \<Rightarrow> gateway_options \<Rightarrow> gateway_options" where
  "gatewayConfig h cfg =
     cfg\<lparr>go_headers :=
           Given (spread [(''Origin'', Str (h_extension_url h)),
                          (''X-Extension-Id'', Str (h_extension_id h))]
                    (given_or (go_headers cfg) [])),
         go_retries := Given (number_or (go_retries cfg) 3),
         go_timeout := Given (number_or (go_timeout cfg) 30000),
         go_caching :=
           Given (given_or (go_caching cfg) \<lparr>cc_ttl = Some 300000, cc_maxSize = Some 50\<rparr>)\<rparr>"

definition createAPIGatewayForURL ::
    "host \<Rightarrow> world \<Rightarrow> string \<Rightarrow> gateway_options \<Rightarrow> gateway_result \<times> world" where
  "createAPIGatewayForURL h w u cfg =
     (case h_new_URL h u of
        None \<Rightarrow> (Failure TypeError, w)
      | Some parsedUrl \<Rightarrow>
          let origin = url_origin parsedUrl
          in (case map_of (activeGateways w) origin of
                Some g \<Rightarrow> (Success g ''Gateway already exists for this origin'', w)
              | None \<Rightarrow>
                  let templateName =
                        (if includes_str u ''graphql'' then ''graphql''
                         else if includes_str u ''ws://'' \<or> includes_str u ''wss://''
                           then ''websocket''
                         else ''rest'')
                  in (case createFromTemplate h w origin templateName (gatewayConfig h cfg) of
                        Inl x \<Rightarrow> (Failure x, w)
                      | Inr (g, w1) \<Rightarrow>
                          let w2 = on_client g (addRequestInterceptor ProxyStamp) w1;
                              w3 = on_client g (addResponseInterceptor ResponseCount) w2
                          in (Success g (''Gateway created for '' @ origin),
                              w3\<lparr>activeGateways := AList.update origin g (activeGateways w3)\<rparr>))))"

text \<open>\<^verbatim>\<open>ProxyManager.removeGateway(url)\<close>: whether an entry was removed, or what was caught.\<close>

definition removeGateway :: "host \<Rightarrow> world \<Rightarrow> string \<Rightarrow> (exn + bool) \<times> world" where
  "removeGateway h w u =
     (case h_new_URL h u of
        None \<Rightarrow> (Inl TypeError, w)
      | Some parsedUrl \<Rightarrow>
          (case map_of (activeGateways w) (url_origin parsedUrl) of
             Some g \<Rightarrow>
               (Inr True,
                w\<lparr>activeGateways := AList.delete (url_origin parsedUrl) (activeGateways w)\<rparr>)
           | None \<Rightarrow> (Inr False, w)))"

text \<open>
  The registry's entries are well formed when every address in it is an address of the
  store and no address stands under two origins.
\<close>

definition registry_ok :: "world \<Rightarrow> bool" where
  "registry_ok w \<longleftrightarrow>
     list_all (\<lambda>g. g < length (heap w)) (map snd (gateways w)) \<and>
     distinct (map snd (gateways w))"

section \<open>Example inputs\<close>

definition three_targets :: "endpoint list" where
  "three_targets =
     [\<lparr>ep_host = ''a'', ep_port = 8080, ep_type = ''http''\<rparr>,
      \<lparr>ep_host = ''b'', ep_port = 8080, ep_type = ''http''\<rparr>,
      \<lparr>ep_host = ''c'', ep_port = 8080, ep_type = ''http''\<rparr>]"


text \<open>
  What the host's URL parser gives on the URLs of the examples below (the WHATWG URL
  standard): \<^verbatim>\<open>ftp\<close> and \<^verbatim>\<open>https\<close> are special schemes with a tuple origin, a scheme the
  standard does not know has the opaque origin \<^verbatim>\<open>null\<close>, and a string with no scheme is
  refused.
\<close>

definition example_URL :: url_parser where
  "example_URL s =
     (if s = ''https://shop.com'' then
        Some \<lparr>url_protocol = ''https:'', url_hostname = ''shop.com'',
              url_origin = ''https://shop.com'', url_pathname = ''/''\<rparr>
      else if s = ''ftp://x.com'' then
        Some \<lparr>url_protocol = ''ftp:'', url_hostname = ''x.com'',
              url_origin = ''ftp://x.com'', url_pathname = ''/''\<rparr>
      else if s = ''httpx://shop.com'' then
        Some \<lparr>url_protocol = ''httpx:'', url_hostname = ''shop.com'',
              url_origin = ''null'', url_pathname = []\<rparr>
      else if s = ''http://localhost:3000/admin'' then
        Some \<lparr>url_protocol = ''http:'', url_hostname = ''localhost'',
              url_origin = ''http://localhost:3000'', url_pathname = ''/admin''\<rparr>
      else if s = ''https://api.example.com'' then
        Some \<lparr>url_protocol = ''https:'', url_hostname = ''api.example.com'',
              url_origin = ''https://api.example.com'', url_pathname = ''/''\<rparr>
      else if s = ''https://api.example.com/users?page=1'' then
        Some \<lparr>url_protocol = ''https:'', url_hostname = ''api.example.com'',
              url_origin = ''https://api.example.com'', url_pathname = ''/users''\<rparr>
      else if s = ''https://api.example.com/items/7'' then
        Some \<lparr>url_protocol = ''https:'', url_hostname = ''api.example.com'',
              url_origin = ''https://api.example.com'', url_pathname = ''/items/7''\<rparr>
      else if s = ''https://api2.example.com'' then
        Some \<lparr>url_protocol = ''https:'', url_hostname = ''api2.example.com'',
              url_origin = ''https://api2.example.com'', url_pathname = ''/''\<rparr>
      else if s = ''httpx://other.com:8443/x'' then
        Some \<lparr>url_protocol = ''httpx:'', url_hostname = ''other.com'',
              url_origin = ''null'', url_pathname = ''/x''\<rparr>
      else None)"

definition shop_lists :: autorotate_state where
  "shop_lists =
     \<lparr>autoRotateMode = True, autoRotateWhitelist = [], autoRotateBlacklist = [''localhost'']\<rparr>"

text \<open>A cache configured with a negative size bound, and one bounded by two entries.\<close>

definition negative_cache :: "(string, string) CacheManager" where
  "negative_cache = CacheManager_new \<lparr>cc_ttl = None, cc_maxSize = Some (- 1)\<rparr>"

definition two_cache :: "(string, string) CacheManager" where
  "two_cache = CacheManager_new \<lparr>cc_ttl = Some 1000, cc_maxSize = Some 2\<rparr>"

text \<open>
  A host for the examples: it parses the URLs listed above, and the text of
  \<^verbatim>\<open>https://api.example.com/users\<close> with no query pair appended is that URL itself.
\<close>

definition example_host :: host where
  "example_host =
     \<lparr>h_new_URL = example_URL,
      h_URL_href = (\<lambda>s qs. if s = ''https://api.example.com/users'' \<and> qs = []
                             then Some s else None),
      h_JSON_stringify = (\<lambda>v. case v of Obj [] \<Rightarrow> Str ''{}'' | _ \<Rightarrow> Undefined),
      h_btoa = (\<lambda>s. s),
      h_extension_url = ''chrome-extension://abcdefgh/'',
      h_extension_id = ''abcdefgh''\<rparr>"

definition example_gateway :: gateway where
  "example_gateway = fst (APIGateway_new example_host [] ''https://api.example.com'' no_options)"





text \<open>
  The state after the registry has created a client for \<^verbatim>\<open>https://api.example.com\<close>, and
  the state after the controller has.
\<close>

definition registered_world :: world where
  "registered_world =
     (case create example_host world_new ''https://api.example.com/users?page=1'' no_options of
        Inr (g, w) \<Rightarrow> w
      | Inl x \<Rightarrow> world_new)"

definition controlled_world :: world where
  "controlled_world =
     snd (createAPIGatewayForURL example_host world_new ''https://api.example.com/users?page=1''
            no_options)"

text \<open>
  The state after the controller has then removed that gateway, and the state after it
  has created a gateway for the origin once more.
\<close>

definition removed_world :: world where
  "removed_world =
     snd (removeGateway example_host controlled_world ''https://api.example.com/items/7'')"

definition recreated_world :: world where
  "recreated_world =
     snd (createAPIGatewayForURL example_host removed_world ''https://api.example.com/items/7''
            no_options)"


section \<open>Request counting\<close>








section \<open>Rotation\<close>

text \<open>
  What \<^verbatim>\<open>rotateProxy\<close> does with at least one target: the rotation counter grows by one,
  the sequential policy moves a valid index \<open>i\<close> to \<open>(i + 1) mod N\<close>, the random policy
  picks an index in \<open>[0, N)\<close>, and both keep the index in range.
\<close>

lemma rotateProxy_rotations: "rotations (rotateProxy r s) = rotations s + 1"
  by (simp add: rotateProxy_def Let_def)

lemma rotateProxy_sequential:
  assumes "rotationMode s = ''sequential''" and "proxyEndpoints s \<noteq> []"
    and "currentProxyIndex s = Num i" and "0 \<le> i"
  shows "currentProxyIndex (rotateProxy r s) = Num ((i + 1) mod int (length (proxyEndpoints s)))"
  using assms by (simp add: rotateProxy_def Let_def)

lemma random_pick_bounds:
  assumes "0 \<le> r" and "r < 1" and "0 < n"
  shows "0 \<le> \<lfloor>r * real n\<rfloor> \<and> \<lfloor>r * real n\<rfloor> < int n"
proof -
  have "r * real n < real n" using assms by simp
  then have "\<lfloor>r * real n\<rfloor> < int n" by (simp add: floor_less_iff)
  moreover have "0 \<le> r * real n" using assms by simp
  ultimately show ?thesis by simp
qed

lemma rotateProxy_random:
  assumes "rotationMode s = ''random''" and "proxyEndpoints s \<noteq> []"
    and "0 \<le> r" and "r < 1"
  shows "\<exists>j. currentProxyIndex (rotateProxy r s) = Num j \<and> 0 \<le> j \<and>
             j < int (length (proxyEndpoints s))"
  using assms random_pick_bounds [of r "length (proxyEndpoints s)"]
  by (simp add: rotateProxy_def Let_def)

lemma rotateProxy_in_range:
  assumes "index_in_range s" and "0 \<le> r" and "r < 1"
  shows "index_in_range (rotateProxy r s)"
proof (cases "proxyEndpoints s")
  case Nil
  then show ?thesis by (simp add: index_in_range_def rotateProxy_def Let_def)
next
  case (Cons e es)
  then obtain i where i: "currentProxyIndex s = Num i" "0 \<le> i" "i < int (length (proxyEndpoints s))"
    using assms(1) by (auto simp: index_in_range_def split: jsnum.splits)
  have n: "0 < length (proxyEndpoints s)" using Cons by simp
  show ?thesis
    using Cons i n random_pick_bounds [OF assms(2,3) n]
    by (simp add: index_in_range_def rotateProxy_def Let_def)
qed

lemma updateProxyEndpoints_in_range:
  assumes "currentProxyIndex s = Num i" and "0 \<le> i"
  shows "index_in_range (updateProxyEndpoints endpoints s)"
  using assms
  by (cases endpoints) (auto simp: index_in_range_def updateProxyEndpoints_def Let_def)

lemma sequential_three_targets:
  "map (\<lambda>k. currentProxyIndex ((rotateProxy r ^^ k) (ProxyManager_new\<lparr>proxyEndpoints := three_targets\<rparr>)))
     [1, 2, 3, 4] = [Num 1, Num 2, Num 0, Num 1]"
  by (simp add: numeral_2_eq_2 numeral_3_eq_3 eval_nat_numeral rotateProxy_def Let_def ProxyManager_new_def three_targets_def)

text \<open>
  Claim C2, at the empty target list. The claim says that with no target configured a
  rotation leaves the index as it is and only counts. In the constructor's state (no
  target, index \<open>0\<close>, sequential policy) \<^verbatim>\<open>rotateProxy\<close> counts the rotation but stores
  \<^verbatim>\<open>(0 + 1) % 0\<close>, which is \<^verbatim>\<open>NaN\<close>: the index is not left unchanged.
\<close>

theorem rotateProxy_empty_list:
  "currentProxyIndex (rotateProxy r ProxyManager_new) = NaN \<and>
   currentProxyIndex ProxyManager_new = Num 0 \<and>
   proxyEndpoints ProxyManager_new = [] \<and>
   rotations (rotateProxy r ProxyManager_new) = 1"
  by (simp add: rotateProxy_def ProxyManager_new_def)

text \<open>
  Claim C3, after a rotation at the empty target list. The claim says that replacing the
  target list resets an out-of-range index, so that with a non-empty list the index is
  always below its length. After the rotation above the index is \<^verbatim>\<open>NaN\<close>; the state
  still satisfies the invariant, there being no target. \<^verbatim>\<open>updateProxyEndpoints\<close> with
  three targets then compares \<^verbatim>\<open>NaN >= 3\<close>, which is false, keeps \<^verbatim>\<open>NaN\<close>, and the
  invariant is broken.
\<close>

theorem index_not_reset_after_empty_rotation:
  "index_in_range (rotateProxy r ProxyManager_new) \<and>
   currentProxyIndex (updateProxyEndpoints three_targets (rotateProxy r ProxyManager_new)) = NaN \<and>
   \<not> index_in_range (updateProxyEndpoints three_targets (rotateProxy r ProxyManager_new))"
  by (simp add: rotateProxy_def ProxyManager_new_def updateProxyEndpoints_def
      index_in_range_def three_targets_def)

section \<open>Auto-rotation eligibility\<close>

text \<open>The two string tests mean what their names say.\<close>

lemma startsWith_iff: "startsWith s p \<longleftrightarrow> (\<exists>ys. s = p @ ys)"
proof
  assume "startsWith s p"
  then have "s = p @ drop (length p) s"
    by (metis append_take_drop_id startsWith_def)
  then show "\<exists>ys. s = p @ ys" ..
next
  assume "\<exists>ys. s = p @ ys"
  then show "startsWith s p" by (auto simp: startsWith_def)
qed

lemma includes_str_iff: "includes_str s t \<longleftrightarrow> (\<exists>xs ys. s = xs @ t @ ys)"
proof (induction s)
  case Nil
  show ?case by auto
next
  case (Cons c cs)
  show ?case
  proof
    assume "includes_str (c # cs) t"
    then consider "startsWith (c # cs) t" | "includes_str cs t" by auto
    then show "\<exists>xs ys. c # cs = xs @ t @ ys"
    proof cases
      case 1
      then obtain ys where "c # cs = t @ ys" by (auto simp: startsWith_iff)
      then have "c # cs = [] @ t @ ys" by simp
      then show ?thesis by blast
    next
      case 2
      then obtain xs ys where "cs = xs @ t @ ys" using Cons.IH by blast
      then have "c # cs = (c # xs) @ t @ ys" by simp
      then show ?thesis by blast
    qed
  next
    assume "\<exists>xs ys. c # cs = xs @ t @ ys"
    then obtain xs ys where e: "c # cs = xs @ t @ ys" by blast
    show "includes_str (c # cs) t"
    proof (cases xs)
      case Nil
      then have "startsWith (c # cs) t" using e by (auto simp: startsWith_iff)
      then show ?thesis by simp
    next
      case (Cons x xs')
      then have "cs = xs' @ t @ ys" using e by simp
      then have "includes_str cs t" using Cons.IH by blast
      then show ?thesis by simp
    qed
  qed
qed

lemma includes_str_self: "includes_str s s"
  by (cases s) (simp_all add: startsWith_def)

lemma blacklist_hit_iff:
  "blacklist_hit d u bs \<longleftrightarrow> (\<exists>b \<in> set bs. includes_str d b \<or> includes_str u b)"
  by (induction bs) auto

text \<open>
  Claim C6. If the URL, or the domain of the parsed URL, contains an entry of the
  blacklist, \<^verbatim>\<open>shouldAutoRotate\<close> returns false whatever the whitelist \<open>w\<close> holds. In
  particular a domain that is an entry of both lists is never eligible.
\<close>

theorem blacklist_vetoes:
  assumes "b \<in> set (autoRotateBlacklist st)"
  shows "(includes_str u b \<or> (\<exists>p. new_URL u = Some p \<and> includes_str (url_hostname p) b)
            \<longrightarrow> \<not> shouldAutoRotate new_URL (st\<lparr>autoRotateWhitelist := w\<rparr>) u) \<and>
         (b \<in> set w \<and> (\<exists>p. new_URL u = Some p \<and> url_hostname p = b)
            \<longrightarrow> \<not> shouldAutoRotate new_URL (st\<lparr>autoRotateWhitelist := w\<rparr>) u)"
proof -
  have veto: "\<not> shouldAutoRotate new_URL (st\<lparr>autoRotateWhitelist := w\<rparr>) u"
    if "includes_str u b \<or> (\<exists>p. new_URL u = Some p \<and> includes_str (url_hostname p) b)"
  proof (cases "new_URL u")
    case None
    then show ?thesis by (simp add: shouldAutoRotate_def)
  next
    case (Some p)
    have "blacklist_hit (url_hostname p) u (autoRotateBlacklist st)"
      using assms that Some by (auto simp: blacklist_hit_iff)
    then show ?thesis using Some by (simp add: shouldAutoRotate_def)
  qed
  have both: "\<not> shouldAutoRotate new_URL (st\<lparr>autoRotateWhitelist := w\<rparr>) u"
    if "\<exists>p. new_URL u = Some p \<and> url_hostname p = b"
    using that veto includes_str_self by blast
  show ?thesis using veto both by blast
qed

theorem blacklist_vetoes_witness:
  "''localhost'' \<in> set (autoRotateBlacklist autorotate_new) \<and>
   ''localhost'' \<in> set [''shop.com'', ''localhost''] \<and>
   includes_str ''http://localhost:3000/admin'' ''localhost'' \<and>
   map_option url_hostname (example_URL ''http://localhost:3000/admin'') = Some ''localhost'' \<and>
   \<not> shouldAutoRotate example_URL
        (autorotate_new\<lparr>autoRotateWhitelist := [''shop.com'', ''localhost'']\<rparr>)
        ''http://localhost:3000/admin''"
proof -
  have b: "''localhost'' \<in> set (autoRotateBlacklist autorotate_new)"
    by (simp add: autorotate_new_def)
  have i: "includes_str ''http://localhost:3000/admin'' ''localhost''"
    by (simp add: startsWith_def)
  have p: "map_option url_hostname (example_URL ''http://localhost:3000/admin'') = Some ''localhost''"
    by (simp add: example_URL_def)
  show ?thesis
    using blacklist_vetoes [OF b, of "''http://localhost:3000/admin''" example_URL
        "[''shop.com'', ''localhost'']"] b i p
    by simp
qed

text \<open>
  The eligibility check returns false when the URL does not parse and when the scheme
  does not begin with \<^verbatim>\<open>http\<close>; with an empty whitelist and the blacklist
  \<^verbatim>\<open>["localhost"]\<close> it refuses \<^verbatim>\<open>ftp://x.com\<close> and accepts \<^verbatim>\<open>https://shop.com\<close>.
\<close>

lemma shouldAutoRotate_unparseable:
  "new_URL u = None \<Longrightarrow> \<not> shouldAutoRotate new_URL st u"
  by (simp add: shouldAutoRotate_def)

lemma shouldAutoRotate_other_scheme:
  "new_URL u = Some p \<Longrightarrow> \<not> startsWith (url_protocol p) ''http'' \<Longrightarrow>
   \<not> shouldAutoRotate new_URL st u"
  by (simp add: shouldAutoRotate_def)

lemma shouldAutoRotate_examples:
  "\<not> shouldAutoRotate example_URL shop_lists ''ftp://x.com'' \<and>
   shouldAutoRotate example_URL shop_lists ''https://shop.com'' \<and>
   \<not> shouldAutoRotate example_URL shop_lists ''no scheme here''"
  by (simp add: shouldAutoRotate_def example_URL_def shop_lists_def startsWith_def)

text \<open>
  Claim C7, at a scheme that begins with \<^verbatim>\<open>http\<close> and is neither \<^verbatim>\<open>http\<close> nor
  \<^verbatim>\<open>https\<close>. The claim says that every URL with a non-HTTP(S) scheme is refused. The
  test of the code is \<^verbatim>\<open>protocol.startsWith('http')\<close>; with an empty whitelist and the
  blacklist \<^verbatim>\<open>["localhost"]\<close> the URL \<^verbatim>\<open>httpx://shop.com\<close> is accepted.
\<close>

theorem shouldAutoRotate_http_prefix_scheme:
  "map_option url_protocol (example_URL ''httpx://shop.com'') = Some ''httpx:'' \<and>
   ''httpx:'' \<noteq> ''http:'' \<and> ''httpx:'' \<noteq> ''https:'' \<and>
   shouldAutoRotate example_URL shop_lists ''httpx://shop.com''"
  by (simp add: shouldAutoRotate_def example_URL_def shop_lists_def startsWith_def)

section \<open>Cache eviction\<close>

text \<open>The operations of the cache keep the keys of the \<^verbatim>\<open>Map\<close> distinct.\<close>

lemma CacheManager_new_distinct: "distinct (map fst (cache (CacheManager_new cfg)))"
  by (simp add: CacheManager_new_def)

lemma cache_set_distinct:
  "distinct (map fst (cache c)) \<Longrightarrow> distinct (map fst (cache (cache_set c key d now)))"
  by (auto simp: cache_set_def Let_def distinct_update distinct_delete split: list.splits)

lemma cache_get_distinct:
  "distinct (map fst (cache c)) \<Longrightarrow> distinct (map fst (cache (snd (cache_get c key now))))"
  by (auto simp: cache_get_def distinct_delete split: option.splits)

lemma delete_head_distinct:
  assumes "distinct (map fst ((k, e) # rest))"
  shows "AList.delete k ((k, e) # rest) = rest"
proof -
  have "k \<notin> fst ` set rest" using assms by simp
  then show ?thesis by (simp add: delete_id)
qed

text \<open>
  Claim C4, as the code has it. In every cache state that holds at least one entry and
  whose entry count is at or above \<^verbatim>\<open>maxSize\<close>, \<^verbatim>\<open>set\<close> evicts exactly one entry, the
  first of the \<^verbatim>\<open>Map\<close> (the earliest inserted of those present, whatever has been read
  since), and then stores the new entry among the rest: the new key maps to the new
  entry, every other key but the evicted one keeps its entry, and the remaining keys
  keep their order with a new key appended. With \<^verbatim>\<open>maxSize = 2\<close>, setting \<^verbatim>\<open>k1\<close>, \<^verbatim>\<open>k2\<close>,
  \<^verbatim>\<open>k3\<close> in this order leaves \<^verbatim>\<open>k2\<close> and \<^verbatim>\<open>k3\<close>.
\<close>

theorem cache_set_evicts_first:
  assumes full: "maxSize c \<le> int (length (cache c))"
    and nonempty: "cache c \<noteq> []"
    and keys: "distinct (map fst (cache c))"
  shows "(\<exists>firstKey e rest.
            cache c = (firstKey, e) # rest \<and>
            cache (cache_set c key d now) =
              AList.update key \<lparr>ce_data = d, ce_timestamp = now\<rparr> rest \<and>
            map_of (cache (cache_set c key d now)) key =
              Some \<lparr>ce_data = d, ce_timestamp = now\<rparr> \<and>
            (\<forall>k. k \<noteq> key \<longrightarrow>
               map_of (cache (cache_set c key d now)) k =
                 (if k = firstKey then None else map_of (cache c) k)) \<and>
            map fst (cache (cache_set c key d now)) =
              (if key \<in> set (map fst rest) then map fst rest else map fst rest @ [key])) \<and>
         map fst (cache (cache_set (cache_set (cache_set two_cache ''k1'' ''v1'' t1) ''k2'' ''v2'' t2)
                    ''k3'' ''v3'' t3)) = [''k2'', ''k3'']"
proof -
  obtain firstKey e rest where c: "cache c = (firstKey, e) # rest"
    using nonempty by (cases "cache c") auto
  have rest: "AList.delete firstKey (cache c) = rest"
    using keys delete_head_distinct [of firstKey e rest] by (simp add: c)
  have fresh: "firstKey \<notin> fst ` set rest" using keys c by simp
  let ?new = "\<lparr>ce_data = d, ce_timestamp = now\<rparr>"
  have res: "cache (cache_set c key d now) = AList.update key ?new rest"
    using full rest c by (simp add: cache_set_def)
  have look: "map_of (cache (cache_set c key d now)) key = Some ?new"
    by (simp add: res update_conv')
  have others: "\<forall>k. k \<noteq> key \<longrightarrow>
      map_of (cache (cache_set c key d now)) k =
        (if k = firstKey then None else map_of (cache c) k)"
    using fresh by (auto simp: res update_conv' c map_of_eq_None_iff)
  have order: "map fst (cache (cache_set c key d now)) =
      (if key \<in> set (map fst rest) then map fst rest else map fst rest @ [key])"
    by (simp add: res update_keys)
  have example: "map fst (cache (cache_set (cache_set (cache_set two_cache ''k1'' ''v1'' t1) ''k2'' ''v2'' t2)
                    ''k3'' ''v3'' t3)) = [''k2'', ''k3'']"
    by (simp add: cache_set_def two_cache_def CacheManager_new_def or_default_def)
  show ?thesis using c res look others order example by blast
qed

theorem cache_set_evicts_first_witness:
  "maxSize (cache_set (cache_set two_cache ''k1'' ''v1'' 10) ''k2'' ''v2'' 20)
     \<le> int (length (cache (cache_set (cache_set two_cache ''k1'' ''v1'' 10) ''k2'' ''v2'' 20))) \<and>
   map fst (cache (cache_set (cache_set two_cache ''k1'' ''v1'' 10) ''k2'' ''v2'' 20)) = [''k1'', ''k2''] \<and>
   map fst (cache (cache_set (cache_set (cache_set two_cache ''k1'' ''v1'' 10) ''k2'' ''v2'' 20)
              ''k3'' ''v3'' 30)) = [''k2'', ''k3''] \<and>
   fst (cache_get (cache_set (cache_set (cache_set two_cache ''k1'' ''v1'' 10) ''k2'' ''v2'' 20)
              ''k3'' ''v3'' 30) ''k1'' 40) = None \<and>
   fst (cache_get (cache_set (cache_set (cache_set two_cache ''k1'' ''v1'' 10) ''k2'' ''v2'' 20)
              ''k3'' ''v3'' 30) ''k2'' 40) = Some ''v2'' \<and>
   fst (cache_get (cache_set (cache_set (cache_set two_cache ''k1'' ''v1'' 10) ''k2'' ''v2'' 20)
              ''k3'' ''v3'' 30) ''k3'' 40) = Some ''v3''"
proof -
  let ?c = "cache_set (cache_set two_cache ''k1'' ''v1'' 10) ''k2'' ''v2'' 20"
  have c: "?c = \<lparr>ttl = 1000, maxSize = 2,
      cache = [(''k1'', \<lparr>ce_data = ''v1'', ce_timestamp = 10\<rparr>),
               (''k2'', \<lparr>ce_data = ''v2'', ce_timestamp = 20\<rparr>)]\<rparr>"
    by (simp add: cache_set_def two_cache_def CacheManager_new_def or_default_def)
  have full: "maxSize ?c \<le> int (length (cache ?c))" by (simp add: c)
  have ne: "cache ?c \<noteq> []" by (simp add: c)
  have ks: "distinct (map fst (cache ?c))" by (simp add: c)
  note th = cache_set_evicts_first [OF full ne ks, of "''k3''" "''v3''" 30 10 20 30]
  have r: "cache_set ?c ''k3'' ''v3'' 30 = \<lparr>ttl = 1000, maxSize = 2,
      cache = [(''k2'', \<lparr>ce_data = ''v2'', ce_timestamp = 20\<rparr>),
               (''k3'', \<lparr>ce_data = ''v3'', ce_timestamp = 30\<rparr>)]\<rparr>"
    unfolding c by (simp add: cache_set_def)
  show ?thesis using th unfolding r unfolding c by (simp add: cache_get_def)
qed

text \<open>
  Claim C4 as stated fails in a cache state with no entry: configured with
  \<^verbatim>\<open>maxSize = -1\<close> the empty cache has its entry count at or above \<^verbatim>\<open>maxSize\<close>, and
  \<^verbatim>\<open>set\<close> stores the entry without evicting one, there being none.
\<close>

theorem cache_set_on_empty_evicts_nothing:
  "maxSize negative_cache \<le> int (length (cache negative_cache)) \<and>
   cache negative_cache = [] \<and>
   cache (cache_set negative_cache ''k1'' ''v1'' 10) =
     [(''k1'', \<lparr>ce_data = ''v1'', ce_timestamp = 10\<rparr>)]"
  by (simp add: negative_cache_def CacheManager_new_def or_default_def cache_set_def)

section \<open>Request construction\<close>

text \<open>
  What a spread does to a lookup, and what \<^verbatim>\<open>buildRequest\<close> leaves in the \<^verbatim>\<open>headers\<close>
  property of the request: the \<^verbatim>\<open>headers\<close> of the per-call options when they have any,
  and only otherwise the merged headers with the forced content type.
\<close>

lemma map_of_spread:
  "map_of (spread target src) k =
     (case map_of (rev src) k of None \<Rightarrow> map_of target k | Some v \<Rightarrow> Some v)"
proof (induction src arbitrary: target)
  case Nil
  show ?case by (simp add: spread_def)
next
  case (Cons p ps)
  obtain k' v' where p: "p = (k', v')" by (cases p)
  have "spread target (p # ps) = spread (AList.update k' v' target) ps"
    by (simp add: spread_def p)
  then show ?case
    using Cons.IH [of "AList.update k' v' target"]
    by (auto simp: p update_conv' map_add_def split: option.splits)
qed

lemma map_of_rev_distinct:
  "distinct (map fst xs) \<Longrightarrow> map_of (rev xs) = map_of xs"
proof (induction xs)
  case Nil
  show ?case by simp
next
  case (Cons p ps)
  obtain k v where p: "p = (k, v)" by (cases p)
  have none: "map_of ps k = None"
    using Cons.prems by (simp add: p map_of_eq_None_iff)
  have "map_of (rev ps) = map_of ps" using Cons by simp
  then show ?case
    using none by (auto simp: p map_add_def fun_eq_iff split: option.splits)
qed

lemma prop_of_Nil: "prop_of [] k = Undefined"
  by (simp add: prop_of_def)

lemma prop_of_Cons: "prop_of ((k', v) # ps) k = (if k' = k then v else prop_of ps k)"
  by (simp add: prop_of_def)

lemma prop_of_spread_distinct:
  assumes "distinct (map fst src)"
  shows "prop_of (spread target src) k =
           (case map_of src k of None \<Rightarrow> prop_of target k | Some v \<Rightarrow> v)"
  using assms by (simp add: prop_of_def map_of_spread map_of_rev_distinct split: option.splits)

lemma buildRequest_headers_from_options:
  assumes "buildRequest h gw meth path data options = Inr rq"
    and "distinct (map fst options)" and "map_of options ''headers'' = Some v"
  shows "prop_of rq ''headers'' = v"
proof -
  obtain href hs where
    rq: "rq = spread [(''url'', Str href), (''method'', Str meth), (''headers'', Obj hs),
                    (''body'', if meth \<noteq> ''GET'' then h_JSON_stringify h data else Undefined),
                    (''cacheKey'', Str (meth @ '':'' @ href))] options"
    using assms(1) by (auto simp: buildRequest_def Let_def split: option.splits)
  show ?thesis unfolding rq using assms(2,3) by (simp add: prop_of_spread_distinct)
qed


lemma buildRequest_content_type_without_option_headers:
  assumes "buildRequest h gw meth path data options = Inr rq"
    and "distinct (map fst options)" and "map_of options ''headers'' = None"
    and "gc_authentication (config gw) = None"
  shows "\<exists>hs. prop_of rq ''headers'' = Obj hs \<and>
              prop_of hs ''Content-Type'' = Str ''application/json''"
proof -
  let ?m = "spread (spread (spread [] (gc_headers (config gw)))
                          (own_props (prop_of options ''headers'')))
                  [(''Content-Type'', Str ''application/json'')]"
  obtain href where
    rq: "rq = spread [(''url'', Str href), (''method'', Str meth), (''headers'', Obj ?m),
                    (''body'', if meth \<noteq> ''GET'' then h_JSON_stringify h data else Undefined),
                    (''cacheKey'', Str (meth @ '':'' @ href))] options"
    using assms(1,4) by (auto simp: buildRequest_def Let_def split: option.splits)
  have "prop_of rq ''headers'' = Obj ?m"
    unfolding rq using assms(2,3) by (simp add: prop_of_spread_distinct prop_of_Cons)
  moreover have "prop_of ?m ''Content-Type'' = Str ''application/json''"
    by (simp add: prop_of_spread_distinct)
  ultimately show ?thesis by blast
qed

text \<open>
  Claim C9, at per-call options that carry headers. The claim says that the request built
  has \<^verbatim>\<open>Content-Type: application/json\<close> whatever headers the caller supplies. The merged
  header object has it, but the request literal ends with the spread of the options,
  whose \<^verbatim>\<open>headers\<close> property replaces the merged object: for a \<^verbatim>\<open>POST\<close> with the per-call
  headers \<^verbatim>\<open>{'Content-Type': 'text/plain'}\<close> the request carries exactly these headers.
\<close>

theorem buildRequest_option_headers_replace_merged:
  "map_sum id (\<lambda>rq. prop_of rq ''headers'')
     (buildRequest example_host example_gateway ''POST'' ''/users'' (Obj [])
        [(''headers'', Obj [(''Content-Type'', Str ''text/plain'')])])
   = Inr (Obj [(''Content-Type'', Str ''text/plain'')])"
  by (simp add: buildRequest_def example_host_def example_gateway_def APIGateway_new_def
      normalizeUrl_def example_URL_def strip_trailing_slash_def normalizePath_def
      startsWith_def no_options_def given_or_def given_value_def number_or_def spread_def
      prop_of_def Let_def)

section \<open>Retry and backoff\<close>



lemma attempts_of_append: "attempts_of (xs @ ys) = attempts_of xs @ attempts_of ys"
  by (induction xs rule: attempts_of.induct) simp_all

lemma delays_of_append: "delays_of (xs @ ys) = delays_of xs @ delays_of ys"
  by (induction xs rule: delays_of.induct) simp_all









lemma APIGateway_new_retries:
  "gc_retries (config (fst (APIGateway_new h store u cfg))) = number_or (go_retries cfg) 3"
  by (simp add: APIGateway_new_def)

lemma APIGateway_new_never_stores_zero:
  "gc_retries (config (fst (APIGateway_new h store u cfg))) \<noteq> 0"
  by (simp add: APIGateway_new_retries number_or_def split: optional.splits)






section \<open>The registry\<close>

text \<open>
  Every operation of the registry and of the controller keeps the registry's entries well
  formed, from the state the constructors build; \<^verbatim>\<open>create\<close> leaves the client it returns
  registered under the origin of the URL.
\<close>

lemma update_absent: "map_of al k = None \<Longrightarrow> AList.update k v al = al @ [(k, v)]"
  by (induction al) (auto split: if_splits)




lemma create_result:
  assumes "h_new_URL h u = Some p"
  shows "create h w u cfg =
           (case map_of (gateways w) (url_origin p) of
              Some g \<Rightarrow> Inr (g, w)
            | None \<Rightarrow>
                Inr (length (heap w),
                     w\<lparr>heap := heap w @
                         [fst (APIGateway_new h (interceptor_store w) (url_origin p) cfg)],
                       interceptor_store :=
                         snd (APIGateway_new h (interceptor_store w) (url_origin p) cfg),
                       gateways := gateways w @ [(url_origin p, length (heap w))]\<rparr>))"
  using assms by (simp add: create_def Let_def update_absent split: option.splits)

lemma create_registers:
  assumes "h_new_URL h u = Some p" and "create h w u cfg = Inr (g, w1)"
  shows "map_of (gateways w1) (url_origin p) = Some g"
  using assms(2) unfolding create_result [OF assms(1)]
  by (auto simp: map_add_def split: option.splits)

lemma create_ok:
  assumes "registry_ok w" and "create h w u cfg = Inr (g, w1)"
  shows "registry_ok w1"
proof (cases "h_new_URL h u")
  case None
  then show ?thesis using assms(2) by (simp add: create_def)
next
  case (Some p)
  show ?thesis
  proof (cases "map_of (gateways w) (url_origin p)")
    case (Some g')
    then show ?thesis
      using assms \<open>h_new_URL h u = Some p\<close> by (simp add: create_result)
  next
    case None
    have w1: "w1 = w\<lparr>heap := heap w @
                       [fst (APIGateway_new h (interceptor_store w) (url_origin p) cfg)],
                     interceptor_store :=
                       snd (APIGateway_new h (interceptor_store w) (url_origin p) cfg),
                     gateways := gateways w @ [(url_origin p, length (heap w))]\<rparr>"
      using assms(2) None \<open>h_new_URL h u = Some p\<close> by (auto simp: create_result)
    have below: "\<forall>x \<in> set (map snd (gateways w)). x < length (heap w)"
      using assms(1) by (simp add: registry_ok_def list_all_iff)
    then have fresh: "length (heap w) \<notin> set (map snd (gateways w))" by blast
    show ?thesis
      unfolding w1 registry_ok_def
      using assms(1) below fresh by (auto simp: registry_ok_def list_all_iff less_Suc_eq)
  qed
qed

lemma remove_ok:
  assumes "registry_ok w" and "remove h w u = Inr (b, w1)"
  shows "registry_ok w1"
proof (cases "h_new_URL h u")
  case None
  then show ?thesis using assms(2) by (simp add: remove_def)
next
  case (Some p)
  then have w1: "w1 = w\<lparr>gateways := AList.delete (url_origin p) (gateways w)\<rparr>"
    using assms(2) by (auto simp: remove_def)
  show ?thesis
    unfolding w1 using assms(1)
    by (auto simp: registry_ok_def list_all_iff AList.delete_eq distinct_map_filter)
qed

lemma clearAll_ok: "registry_ok (clearAll w)"
  by (simp add: registry_ok_def clearAll_def)

lemma registerTemplate_ok: "registry_ok w \<Longrightarrow> registry_ok (registerTemplate w name cfg)"
  by (simp add: registry_ok_def registerTemplate_def)

lemma createFromTemplate_ok:
  assumes "registry_ok w" and "createFromTemplate h w u t cfg = Inr (g, w1)"
  shows "registry_ok w1"
  using assms create_ok
  by (auto simp: createFromTemplate_def split: option.splits)

lemma on_client_ok: "registry_ok w \<Longrightarrow> registry_ok (on_client g f w)"
  by (simp add: registry_ok_def on_client_def)

lemma createAPIGatewayForURL_ok:
  assumes "registry_ok w"
  shows "registry_ok (snd (createAPIGatewayForURL h w u cfg))"
proof -
  have upd: "registry_ok (x\<lparr>activeGateways := a\<rparr>)" if "registry_ok x" for x a
    using that by (simp add: registry_ok_def)
  show ?thesis
    using assms createFromTemplate_ok [OF assms] on_client_ok upd
    by (auto simp: createAPIGatewayForURL_def Let_def split: option.splits sum.splits prod.splits)
qed

lemma removeGateway_ok: "registry_ok w \<Longrightarrow> registry_ok (snd (removeGateway h w u))"
  by (auto simp: removeGateway_def registry_ok_def split: option.splits)

lemma createAPIGatewayForURL_registers:
  assumes "h_new_URL h u = Some p"
    and "createAPIGatewayForURL h w u cfg = (Success g msg, w1)"
  shows "map_of (activeGateways w1) (url_origin p) = Some g"
  using assms
  by (auto simp: createAPIGatewayForURL_def Let_def update_conv'
      split: option.splits sum.splits prod.splits)





text \<open>
  What holds of an existing client. When the registry holds a client for the origin of
  the URL, \<^verbatim>\<open>create\<close> returns that client and the state is the one before the call, for
  every configuration passed: both stores, and so the stored configuration of the client
  and its interceptors, are untouched and the argument has no effect. The same holds of
  \<^verbatim>\<open>createAPIGatewayForURL\<close> when the controller's own map holds a client for the origin,
  and so of a second call right after a first call, with a URL of the same origin, that
  returned the client.
\<close>

lemma existing_client_returned_unchanged:
  assumes p: "h_new_URL h u = Some p"
  shows "(map_of (gateways w) (url_origin p) = Some g \<longrightarrow> create h w u cfg = Inr (g, w)) \<and>
         (map_of (activeGateways w) (url_origin p) = Some g \<longrightarrow>
            createAPIGatewayForURL h w u cfg =
              (Success g ''Gateway already exists for this origin'', w)) \<and>
         (\<forall>u0 p0 cfg0 w0.
            h_new_URL h u0 = Some p0 \<and> url_origin p0 = url_origin p \<and>
            create h w0 u0 cfg0 = Inr (g, w) \<longrightarrow> create h w u cfg = Inr (g, w)) \<and>
         (\<forall>u0 p0 cfg0 w0 msg.
            h_new_URL h u0 = Some p0 \<and> url_origin p0 = url_origin p \<and>
            createAPIGatewayForURL h w0 u0 cfg0 = (Success g msg, w) \<longrightarrow>
            createAPIGatewayForURL h w u cfg =
              (Success g ''Gateway already exists for this origin'', w))"
proof -
  have reg: "create h w u cfg = Inr (g, w)" if "map_of (gateways w) (url_origin p) = Some g"
    using that by (simp add: create_result [OF p])
  have act: "createAPIGatewayForURL h w u cfg =
               (Success g ''Gateway already exists for this origin'', w)"
    if "map_of (activeGateways w) (url_origin p) = Some g"
    using that p by (simp add: createAPIGatewayForURL_def)
  have reg2: "create h w u cfg = Inr (g, w)"
    if "h_new_URL h u0 = Some p0" "url_origin p0 = url_origin p" "create h w0 u0 cfg0 = Inr (g, w)"
    for u0 p0 cfg0 w0
    using create_registers [OF that(1,3)] that(2) reg by simp
  have act2: "createAPIGatewayForURL h w u cfg =
               (Success g ''Gateway already exists for this origin'', w)"
    if "h_new_URL h u0 = Some p0" "url_origin p0 = url_origin p"
       "createAPIGatewayForURL h w0 u0 cfg0 = (Success g msg, w)"
    for u0 p0 cfg0 w0 msg
    using createAPIGatewayForURL_registers [OF that(1,3)] that(2) act by simp
  show ?thesis using reg act reg2 act2 by blast
qed

lemma registered_world_eq:
  "registered_world =
     \<lparr>heap = [fst (APIGateway_new example_host [] ''https://api.example.com'' no_options)],
      interceptor_store = [\<lparr>ic_request = [], ic_response = []\<rparr>],
      gateways = [(''https://api.example.com'', 0)],
      templates = templates world_new, activeGateways = []\<rparr>"
  by (simp add: registered_world_def create_def example_host_def example_URL_def world_new_def
      Let_def)
     (simp add: APIGateway_new_def no_options_def)

lemma controlled_world_eq:
  "controlled_world =
     \<lparr>heap = [fst (APIGateway_new example_host [] ''https://api.example.com''
                (merge_options
                   (no_options\<lparr>go_headers := Given [(''Accept'', Str ''application/json'')],
                      go_caching := Given \<lparr>cc_ttl = Some 300000, cc_maxSize = Some 50\<rparr>,
                      go_retries := Given 3, go_timeout := Given 30000\<rparr>)
                   (gatewayConfig example_host no_options)))],
      interceptor_store = [\<lparr>ic_request = [ProxyStamp], ic_response = [ResponseCount]\<rparr>],
      gateways = [(''https://api.example.com'', 0)],
      templates = templates world_new,
      activeGateways = [(''https://api.example.com'', 0)]\<rparr>"
  by (simp add: controlled_world_def createAPIGatewayForURL_def createFromTemplate_def create_def
      example_host_def example_URL_def world_new_def on_client_def startsWith_def Let_def)
     (simp add: APIGateway_new_def merge_options_def gatewayConfig_def no_options_def
        or_else_def given_or_def addRequestInterceptor_def addResponseInterceptor_def Let_def)

lemma existing_client_examples:
  "h_new_URL example_host ''https://api.example.com/items/7'' \<noteq> None \<and>
   map_of (gateways registered_world) ''https://api.example.com'' = Some 0 \<and>
   create example_host registered_world ''https://api.example.com/items/7''
       (no_options\<lparr>go_retries := Given 9\<rparr>) = Inr (0, registered_world) \<and>
   gc_retries (config (heap registered_world ! 0)) = 3 \<and>
   map_of (activeGateways controlled_world) ''https://api.example.com'' = Some 0 \<and>
   createAPIGatewayForURL example_host controlled_world ''https://api.example.com/items/7''
       (no_options\<lparr>go_retries := Given 9\<rparr>) =
     (Success 0 ''Gateway already exists for this origin'', controlled_world)"
proof -
  let ?p = "\<lparr>url_protocol = ''https:'', url_hostname = ''api.example.com'',
             url_origin = ''https://api.example.com'', url_pathname = ''/items/7''\<rparr>"
  have p: "h_new_URL example_host ''https://api.example.com/items/7'' = Some ?p"
    by (simp add: example_host_def example_URL_def)
  have reg: "map_of (gateways registered_world) (url_origin ?p) = Some 0"
    by (simp add: registered_world_eq)
  have act: "map_of (activeGateways controlled_world) (url_origin ?p) = Some 0"
    by (simp add: controlled_world_eq)
  have kept: "gc_retries (config (heap registered_world ! 0)) = 3"
    by (simp add: registered_world_eq APIGateway_new_def no_options_def number_or_def)
  note a = existing_client_returned_unchanged [OF p, of registered_world 0
      "no_options\<lparr>go_retries := Given 9\<rparr>"]
  note b = existing_client_returned_unchanged [OF p, of controlled_world 0
      "no_options\<lparr>go_retries := Given 9\<rparr>"]
  have one: "create example_host registered_world ''https://api.example.com/items/7''
       (no_options\<lparr>go_retries := Given 9\<rparr>) = Inr (0, registered_world)"
    using a reg by blast
  have two: "createAPIGatewayForURL example_host controlled_world ''https://api.example.com/items/7''
       (no_options\<lparr>go_retries := Given 9\<rparr>) =
     (Success 0 ''Gateway already exists for this origin'', controlled_world)"
    using b act by blast
  show ?thesis using p reg act kept one two by simp
qed

lemma removed_world_eq: "removed_world = controlled_world\<lparr>activeGateways := []\<rparr>"
  by (simp add: removed_world_def removeGateway_def example_host_def example_URL_def
      controlled_world_eq)

text \<open>
  Claim C10, after the controller has removed the gateway. The claim says that when a
  client exists for an origin, \<^verbatim>\<open>createAPIGatewayForURL\<close> returns it and leaves its stored
  configuration unchanged. \<^verbatim>\<open>removeGateway\<close> deletes the entry of the controller's map
  only and never calls the registry's \<^verbatim>\<open>remove\<close>, so the registry still holds the client.
  The next \<^verbatim>\<open>createAPIGatewayForURL\<close> for the origin does not find it in the controller's
  map, takes the existing client from the registry, and pushes the two interceptors onto
  its configuration a second time: the client returned is the existing one, and its
  stored interceptor lists have changed from one entry each to two.
\<close>

theorem recreated_gateway_has_second_interceptor_pair:
  "map_of (gateways removed_world) ''https://api.example.com'' = Some 0 \<and>
   map_of (activeGateways removed_world) ''https://api.example.com'' = None \<and>
   client_interceptors removed_world 0 =
     \<lparr>ic_request = [ProxyStamp], ic_response = [ResponseCount]\<rparr> \<and>
   fst (createAPIGatewayForURL example_host removed_world ''https://api.example.com/items/7''
          no_options) =
     Success 0 ''Gateway created for https://api.example.com'' \<and>
   heap recreated_world = heap removed_world \<and>
   client_interceptors recreated_world 0 =
     \<lparr>ic_request = [ProxyStamp, ProxyStamp], ic_response = [ResponseCount, ResponseCount]\<rparr>"
proof -
  have p: "h_new_URL example_host ''https://api.example.com/items/7'' =
      Some \<lparr>url_protocol = ''https:'', url_hostname = ''api.example.com'',
             url_origin = ''https://api.example.com'', url_pathname = ''/items/7''\<rparr>"
    by (simp add: example_host_def example_URL_def)
  have o: "h_new_URL example_host ''https://api.example.com'' =
      Some \<lparr>url_protocol = ''https:'', url_hostname = ''api.example.com'',
             url_origin = ''https://api.example.com'', url_pathname = ''/''\<rparr>"
    by (simp add: example_host_def example_URL_def)
  have a0: "gc_interceptors (config (heap controlled_world ! 0)) = 0"
    by (simp add: controlled_world_eq APIGateway_new_def merge_options_def gatewayConfig_def
        no_options_def or_else_def given_or_def)
  have before: "client_interceptors removed_world 0 =
      \<lparr>ic_request = [ProxyStamp], ic_response = [ResponseCount]\<rparr>"
    using a0 by (simp add: client_interceptors_def removed_world_eq interceptors_at_def)
       (simp add: controlled_world_eq)
  have run: "createAPIGatewayForURL example_host removed_world
        ''https://api.example.com/items/7'' no_options =
      (Success 0 ''Gateway created for https://api.example.com'',
       controlled_world\<lparr>interceptor_store :=
         [\<lparr>ic_request = [ProxyStamp, ProxyStamp],
           ic_response = [ResponseCount, ResponseCount]\<rparr>]\<rparr>)"
    using a0
    by (simp add: removed_world_eq controlled_world_eq world_new_def createAPIGatewayForURL_def
        createFromTemplate_def create_def p o on_client_def startsWith_def Let_def
        addRequestInterceptor_def addResponseInterceptor_def)
  have after: "client_interceptors recreated_world 0 =
      \<lparr>ic_request = [ProxyStamp, ProxyStamp], ic_response = [ResponseCount, ResponseCount]\<rparr>"
    using a0 by (simp add: recreated_world_def run client_interceptors_def interceptors_at_def)
  have same: "heap recreated_world = heap removed_world"
    by (simp add: recreated_world_def run) (simp add: removed_world_eq)
  show ?thesis
    using before after same by (simp add: run) (simp add: removed_world_eq controlled_world_eq)
qed

text \<open>
  Two properties of configuration objects that the model keeps. A property given as
  \<^verbatim>\<open>false\<close> in the overrides replaces the template's: \<^verbatim>\<open>createFromTemplate\<close> with the
  \<^verbatim>\<open>rest\<close> template and \<^verbatim>\<open>caching: false\<close> builds a client with no cache. And two clients
  built from configurations that hold the same interceptor object share it: an
  interceptor added to one is run by the other.
\<close>

lemma caching_false_replaces_template:
  "merge_options (no_options\<lparr>go_caching := Given c\<rparr>) (no_options\<lparr>go_caching := Falsy\<rparr>)
     = no_options\<lparr>go_caching := Falsy\<rparr> \<and>
   gw_cache (fst (APIGateway_new h store u (no_options\<lparr>go_caching := Falsy\<rparr>))) = None"
  by (simp add: merge_options_def no_options_def or_else_def APIGateway_new_def given_value_def)

lemma clients_share_given_interceptors:
  assumes "go_interceptors cfg = Given a" and "a < length store"
  shows "gc_interceptors (config (fst (APIGateway_new h store u1 cfg))) =
           gc_interceptors (config (fst (APIGateway_new h store u2 cfg))) \<and>
         ic_request (interceptors_at
             (addRequestInterceptor i (fst (APIGateway_new h store u1 cfg)) store)
             (gc_interceptors (config (fst (APIGateway_new h store u2 cfg))))) =
           ic_request (interceptors_at store a) @ [i]"
  using assms
  by (simp add: APIGateway_new_def given_or_def addRequestInterceptor_def interceptors_at_def
      Let_def)

end
